theory Spec2Isabelle
  imports Main
begin

section \<open>The target AST\<close>

text \<open>
  Modelled from the spec: the builder module \<^verbatim>\<open>kdbpy/q.py\<close> (the classes
  \<^verbatim>\<open>q.Atom\<close>, \<^verbatim>\<open>q.Symbol\<close>, \<^verbatim>\<open>q.List\<close>, \<^verbatim>\<open>q.Dict\<close>,
  \<^verbatim>\<open>q.select\<close> and the operator builders) is not among the sources. The value types
  are those of the spec's data model: Atom (a scalar literal, kept by its rendering), Symbol (a
  name, possibly dotted, with the named fields of the table it denotes and the flags
  \<open>is_partitioned\<close> and \<open>is_splayed\<close>), List (an ordered heterogeneous sequence), Dict (an
  ordered mapping, kept as an association list) and select (exactly the four slots child,
  constraints, grouper, aggregates). \<open>Str\<close>, \<open>Num\<close> and \<open>Bool\<close> are the host strings, integers
  and booleans that \<^verbatim>\<open>core.py\<close> places directly into Lists
  (\<^verbatim>\<open>q.List('@', child, ...)\<close>) and that \<^verbatim>\<open>_desubs\<close> passes through.
\<close>

datatype qexpr =
    Atom string
  | Symbol string "string list" bool bool
  | Str string
  | Num int
  | Bool bool
  | List "qexpr list"
  | Dict "(qexpr \<times> qexpr) list"
  | select qexpr qexpr qexpr qexpr

text \<open>The exceptions the translation rules raise, each with its message.\<close>

datatype error =
    ValueError string
  | NotImplementedError string
  | AssertionError string
  | AttributeError string
  | KeyError string
  | TypeError string

text \<open>
  Modelled from the spec: \<^verbatim>\<open>q.Symbol(name)\<close> called with a name alone gives a Symbol
  without fields and with both layout flags cleared.
\<close>

definition q_Symbol :: "string \<Rightarrow> qexpr" where
  "q_Symbol nm = Symbol nm [] False False"


definition q_add :: "qexpr \<Rightarrow> qexpr \<Rightarrow> qexpr" where
  "q_add x y = List [Str ''add'', x, y]"

definition q_sub :: "qexpr \<Rightarrow> qexpr \<Rightarrow> qexpr" where
  "q_sub x y = List [Str ''sub'', x, y]"

definition q_mod :: "qexpr \<Rightarrow> qexpr \<Rightarrow> qexpr" where
  "q_mod x y = List [Str ''mod'', x, y]"

definition q_long :: "qexpr \<Rightarrow> qexpr" where
  "q_long x = List [Str ''long'', x]"

definition q_til :: "qexpr \<Rightarrow> qexpr" where
  "q_til x = List [Str ''til'', x]"

definition q_count :: "qexpr \<Rightarrow> qexpr" where
  "q_count x = List [Str ''count'', x]"



text \<open>
  Modelled from the spec: \<^verbatim>\<open>q.symlist\<close> gives "the shared key column list", a List
  of one Symbol for each column name.
\<close>

definition symlist :: "string list \<Rightarrow> qexpr" where
  "symlist names = List (map q_Symbol names)"

text \<open>
  Attribute reads. \<^verbatim>\<open>x.s\<close> exists on Atoms and Symbols; one name stands for both
  \<^verbatim>\<open>.s\<close> and \<^verbatim>\<open>.str\<close>. \<^verbatim>\<open>x.aggregates\<close> exists on a select.
  \<^verbatim>\<open>getattr(x, 'fields', ())\<close> is read only where \<^verbatim>\<open>x\<close> is not a select.
  Modelled from the spec: only a Symbol carries the \<open>is_partitioned\<close> flag; every other
  fragment reports it cleared.
\<close>

fun attr_s :: "qexpr \<Rightarrow> error + string" where
  "attr_s (Atom s) = Inr s"
| "attr_s (Symbol s fs p sp) = Inr s"
| "attr_s e = Inl (AttributeError ''s'')"


fun fields :: "qexpr \<Rightarrow> string list" where
  "fields (Symbol s fs p sp) = fs"
| "fields e = []"


fun is_select :: "qexpr \<Rightarrow> bool" where
  "is_select (select c k g a) = True"
| "is_select e = False"

section \<open>Symbol substitution\<close>

text \<open>\<^verbatim>\<open>get\<close>: a List of length one gives its element, anything else is returned.
  A select counts five items (the marker and its four slots) and is never unwrapped.\<close>

definition get :: "qexpr \<Rightarrow> qexpr" where
  "get x = (case x of List [y] \<Rightarrow> y | _ \<Rightarrow> x)"

text \<open>\<^verbatim>\<open>s.split('.', 1)\<close> for a string that contains a dot: the text before the first
  dot and the text after it.\<close>

definition split1 :: "string \<Rightarrow> string \<times> string" where
  "split1 s = (takeWhile (\<lambda>c. c \<noteq> CHR ''.'') s, tl (dropWhile (\<lambda>c. c \<noteq> CHR ''.'') s))"

text \<open>\<^verbatim>\<open>compute_atom\<close>: an Atom or Symbol whose name has a dot and whose first
  component is the scope is rebuilt, by its own class, from the rest of the name.\<close>

fun compute_atom :: "qexpr \<Rightarrow> string \<Rightarrow> qexpr" where
  "compute_atom (Atom s) symbol =
     (if CHR ''.'' \<in> set s \<and> fst (split1 s) = symbol then Atom (snd (split1 s)) else Atom s)"
| "compute_atom (Symbol s fs p sp) symbol =
     (if CHR ''.'' \<in> set s \<and> fst (split1 s) = symbol then q_Symbol (snd (split1 s))
      else Symbol s fs p sp)"
| "compute_atom e symbol = e"

text \<open>
  \<^verbatim>\<open>desubs\<close> and the generator \<^verbatim>\<open>_desubs\<close>. \<open>desubs e t\<close> is
  \<^verbatim>\<open>get(result_type(*list(_desubs(e, t))))\<close>: for an Atom or a host literal the generator
  yields one item, which \<^verbatim>\<open>get\<close> unwraps again; for a List it yields one item for each
  element; for a Dict the loop \<^verbatim>\<open>for sube in expr\<close> runs over the keys of the ordered
  mapping; for a select it yields the marker \<^verbatim>\<open>'?'\<close> and the four slots, and
  \<^verbatim>\<open>q.select(*args[1:])\<close> rebuilds the select from the slots. \<open>desubs_sube e t\<close> is the
  item the generator's loop yields for the element \<open>e\<close>: a select is a \<^verbatim>\<open>q.List\<close> of
  its marker and slots there.
\<close>

fun desubs :: "qexpr \<Rightarrow> string \<Rightarrow> qexpr"
  and desubs_sube :: "qexpr \<Rightarrow> string \<Rightarrow> qexpr" where
  "desubs (Atom s) t = compute_atom (Atom s) t"
| "desubs (Symbol s fs p sp) t = compute_atom (Symbol s fs p sp) t"
| "desubs (Str s) t = Str s"
| "desubs (Num n) t = Num n"
| "desubs (Bool b) t = Bool b"
| "desubs (List xs) t = get (List (map (\<lambda>x. desubs_sube x t) xs))"
| "desubs (Dict kvs) t = get (List (map (\<lambda>kv. desubs_sube (fst kv) t) kvs))"
| "desubs (select c k g a) t =
     select (desubs_sube c t) (desubs_sube k t) (desubs_sube g t) (desubs_sube a t)"
| "desubs_sube (Atom s) t = compute_atom (Atom s) t"
| "desubs_sube (Symbol s fs p sp) t = compute_atom (Symbol s fs p sp) t"
| "desubs_sube (List xs) t = List (map (\<lambda>x. desubs x t) xs)"
| "desubs_sube (select c k g a) t =
     List [desubs (Str ''?'') t, desubs c t, desubs k t, desubs g t, desubs a t]"
| "desubs_sube (Dict kvs) t = Dict (map (\<lambda>kv. (desubs (fst kv) t, desubs (snd kv) t)) kvs)"
| "desubs_sube e t = e"

text \<open>
  The fragments on which a pass neither leaves a strippable name behind nor unwraps a sequence.
  \<open>strips s t\<close>: \<^verbatim>\<open>compute_atom\<close> rewrites the name \<open>s\<close> under the scope \<open>t\<close>.
  \<open>restrips s t\<close>: the name it leaves would be rewritten again. \<open>desubs_stable t e\<close> follows
  \<open>desubs\<close>, \<open>desubs_sube_stable t e\<close> follows \<open>desubs_sube\<close>: no name restrips, and no List or
  Dict that \<^verbatim>\<open>get\<close> receives has exactly one item.
\<close>

definition strips :: "string \<Rightarrow> string \<Rightarrow> bool" where
  "strips s t = (CHR ''.'' \<in> set s \<and> fst (split1 s) = t)"

definition restrips :: "string \<Rightarrow> string \<Rightarrow> bool" where
  "restrips s t = (strips s t \<and> strips (snd (split1 s)) t)"

fun desubs_stable :: "string \<Rightarrow> qexpr \<Rightarrow> bool"
  and desubs_sube_stable :: "string \<Rightarrow> qexpr \<Rightarrow> bool" where
  "desubs_stable t (Atom s) = (\<not> restrips s t)"
| "desubs_stable t (Symbol s fs p sp) = (\<not> restrips s t)"
| "desubs_stable t (Str s) = True"
| "desubs_stable t (Num n) = True"
| "desubs_stable t (Bool b) = True"
| "desubs_stable t (List xs) = (length xs \<noteq> 1 \<and> (\<forall>x \<in> set xs. desubs_sube_stable t x))"
| "desubs_stable t (Dict kvs) =
     (length kvs \<noteq> 1 \<and> (\<forall>kv \<in> set kvs. desubs_sube_stable t (fst kv)))"
| "desubs_stable t (select c k g a) =
     (desubs_sube_stable t c \<and> desubs_sube_stable t k \<and> desubs_sube_stable t g
      \<and> desubs_sube_stable t a)"
| "desubs_sube_stable t (Atom s) = (\<not> restrips s t)"
| "desubs_sube_stable t (Symbol s fs p sp) = (\<not> restrips s t)"
| "desubs_sube_stable t (List xs) = (\<forall>x \<in> set xs. desubs_stable t x)"
| "desubs_sube_stable t (select c k g a) =
     (desubs_stable t c \<and> desubs_stable t k \<and> desubs_stable t g \<and> desubs_stable t a)"
| "desubs_sube_stable t (Dict kvs) =
     (\<forall>kv \<in> set kvs. desubs_stable t (fst kv) \<and> desubs_stable t (snd kv))"
| "desubs_sube_stable t e = True"

section \<open>What the target operators compute\<close>

text \<open>
  Modelled from the spec: the integer meaning of the arithmetic builders, for the claims that
  speak of the value a translated expression evaluates to. \<^verbatim>\<open>and_\<close> is the minimum
  of its two arguments (the comment in the Head rule), \<^verbatim>\<open>add\<close>, \<^verbatim>\<open>sub\<close> and
  \<^verbatim>\<open>mod\<close> are integer arithmetic, \<^verbatim>\<open>long\<close> is the cast to a long integer. Every
  other fragment (a row count, a field of a datum) takes its value from the environment \<open>\<rho>\<close>.
\<close>

fun qeval :: "(qexpr \<Rightarrow> int option) \<Rightarrow> qexpr \<Rightarrow> int option" where
  "qeval \<rho> (Num n) = Some n"
| "qeval \<rho> (List [Str f, x]) =
     (if f = ''long'' then qeval \<rho> x else \<rho> (List [Str f, x]))"
| "qeval \<rho> (List [Str f, x, y]) =
     (if f = ''and_'' \<or> f = ''add'' \<or> f = ''sub'' \<or> f = ''mod'' then
        (case (qeval \<rho> x, qeval \<rho> y) of
           (Some a, Some b) \<Rightarrow>
             (if f = ''and_'' then Some (min a b)
              else if f = ''add'' then Some (a + b)
              else if f = ''sub'' then Some (a - b)
              else if b = 0 then None else Some (a mod b))
         | _ \<Rightarrow> None)
      else \<rho> (List [Str f, x, y]))"
| "qeval \<rho> e = \<rho> e"

section \<open>Translation rules\<close>

text \<open>\<^verbatim>\<open>compute_up (Reduction, q.Expr)\<close>. The operator table \<^verbatim>\<open>q.unops\<close> is not
  among the sources and is a parameter; a symbol it lacks is a \<^verbatim>\<open>KeyError\<close>.\<close>

definition compute_up_Reduction ::
  "(string \<Rightarrow> (qexpr \<Rightarrow> qexpr) option) \<Rightarrow> string \<Rightarrow> int list \<Rightarrow> qexpr \<Rightarrow> error + qexpr" where
  "compute_up_Reduction unops symbol axis data =
     (if axis \<noteq> [0] then
        Inl (ValueError ''Axis keyword arugment on reductions not supported'')
      else case unops symbol of
             None \<Rightarrow> Inl (KeyError symbol)
           | Some f \<Rightarrow> Inr (f data))"

text \<open>\<^verbatim>\<open>compute_down (nelements, q.Expr)\<close>.\<close>

definition compute_down_nelements :: "int list \<Rightarrow> qexpr \<Rightarrow> error + qexpr" where
  "compute_down_nelements axis data =
     (if axis \<noteq> [0] then Inl (ValueError ''axis == 1 not supported on record types'')
      else if fields data \<noteq> [] \<and> \<not> is_select data then
        (case attr_s data of
           Inl e \<Rightarrow> Inl e
         | Inr s \<Rightarrow> Inr (q_count (q_Symbol s)))
      else Inr (q_count data))"

text \<open>\<^verbatim>\<open>nrows\<close>: the element count of the child along the leading axis
  (\<^verbatim>\<open>expr._child.nrows\<close>), computed on the translated child.\<close>

definition nrows :: "qexpr \<Rightarrow> error + qexpr" where
  "nrows data = compute_down_nelements [0] data"


text \<open>\<^verbatim>\<open>compute_up (Minute, q.Expr)\<close>. Indexing a fragment by an attribute name,
  \<^verbatim>\<open>data[expr.attr]\<close>, belongs to the builder module and is the parameter \<open>getitem\<close>.\<close>

definition compute_up_Minute ::
  "(qexpr \<Rightarrow> string \<Rightarrow> error + qexpr) \<Rightarrow> string \<Rightarrow> qexpr \<Rightarrow> error + qexpr" where
  "compute_up_Minute getitem attr data =
     (case getitem data attr of
        Inl e \<Rightarrow> Inl e
      | Inr field \<Rightarrow> Inr (q_mod (q_long field) (Num 60)))"

text \<open>\<^verbatim>\<open>compute_up (Join, q.Expr, q.Expr)\<close>; the join columns are lists of names.\<close>

definition compute_up_Join ::
  "string \<Rightarrow> string list \<Rightarrow> string list \<Rightarrow> qexpr \<Rightarrow> qexpr \<Rightarrow> error + qexpr" where
  "compute_up_Join how on_left on_right lhs rhs =
     (if how \<noteq> ''inner'' then Inl (NotImplementedError ''only inner joins supported'')
      else if on_left \<noteq> on_right then
        Inl (NotImplementedError ''can only join on same named columns'')
      else Inr (List [Str ''ej'', symlist on_left, lhs, rhs]))"


section \<open>Slicing\<close>

text \<open>One slice dimension: an integer, or a Python \<^verbatim>\<open>slice\<close> with its start, stop and
  step, each possibly \<^verbatim>\<open>None\<close>.\<close>

datatype index = Integral int | slice "int option" "int option" "int option"

text \<open>
  \<^verbatim>\<open>compute_slice\<close>, both dispatch cases. \<open>isrecord\<close> is
  \<^verbatim>\<open>isrecord(dshape)\<close> and \<open>nrows'\<close> is the argument \<^verbatim>\<open>nrows\<close>. In the range case \<^verbatim>\<open>index.start or 0\<close> is an integer;
  \<^verbatim>\<open>index.stop or nrows\<close> is the integer stop (\<open>Inl\<close>) when that is neither
  \<^verbatim>\<open>None\<close> nor \<open>0\<close>, and the row-count expression (\<open>Inr\<close>) otherwise, and the test
  \<^verbatim>\<open>stop < 0\<close> succeeds on a negative integer only. The step is never read.
\<close>

fun compute_slice :: "index \<Rightarrow> qexpr \<Rightarrow> qexpr \<Rightarrow> bool \<Rightarrow> qexpr" where
  "compute_slice (Integral i) child nrows' isrecord =
     (let index = (if i < 0 then q_add (Num i) nrows' else Num i);
          qexpr = List [child, index]
      in if \<not> isrecord then qexpr else List [Str '',:'', qexpr])"
| "compute_slice (slice istart istop istep) child nrows' isrecord =
     (let start = (case istart of None \<Rightarrow> 0 | Some a \<Rightarrow> if a \<noteq> 0 then a else 0);
          stop = (case istop of None \<Rightarrow> Inr nrows'
                  | Some b \<Rightarrow> if b \<noteq> 0 then Inl b else Inr nrows');
          start = (if start < 0 then q_add (Num start) nrows' else Num start);
          stop = (case stop of
                    Inl b \<Rightarrow> if b < 0 then q_add (Num b) nrows' else Num b
                  | Inr e \<Rightarrow> e)
      in List [Str ''@'', child, q_add start (q_til (q_sub stop start))])"

text \<open>
  The range normalisation in the spec's words, on integers, for a child of \<open>r\<close> rows: a missing
  start is 0 and a missing stop is \<open>r\<close>; a negative bound has \<open>r\<close> added; any other bound is
  kept. These two follow the spec, not \<^verbatim>\<open>compute_slice\<close>, and are what its output is
  compared with.
\<close>

definition slice_start :: "int option \<Rightarrow> int \<Rightarrow> int" where
  "slice_start a r = (case a of None \<Rightarrow> 0 | Some a \<Rightarrow> if a < 0 then a + r else a)"

definition slice_stop :: "int option \<Rightarrow> int \<Rightarrow> int" where
  "slice_stop b r = (case b of None \<Rightarrow> r | Some b \<Rightarrow> if b < 0 then b + r else b)"

text \<open>\<^verbatim>\<open>compute_up (Slice, q.Expr)\<close>; \<open>idx\<close> is the tuple \<^verbatim>\<open>expr.index\<close>.\<close>

definition compute_up_Slice :: "index list \<Rightarrow> qexpr \<Rightarrow> bool \<Rightarrow> error + qexpr" where
  "compute_up_Slice idx data isrecord =
     (if length idx \<noteq> 1 then Inl (AssertionError ''only single slice allowed'')
      else case nrows data of
             Inl e \<Rightarrow> Inl e
           | Inr rowcount \<Rightarrow> Inr (compute_slice (hd idx) data rowcount isrecord))"

section \<open>Literal coercion\<close>

















section \<open>Auxiliary facts\<close>

lemma nrows_count: "\<exists>x. nrows data = Inr (q_count x)"
  by (cases data) (auto simp: nrows_def compute_down_nelements_def)


lemma qeval_add: "qeval \<rho> (q_add x y) =
  (case (qeval \<rho> x, qeval \<rho> y) of (Some a, Some b) \<Rightarrow> Some (a + b) | _ \<Rightarrow> None)"
  by (simp add: q_add_def split: option.splits)

lemma qeval_sub: "qeval \<rho> (q_sub x y) =
  (case (qeval \<rho> x, qeval \<rho> y) of (Some a, Some b) \<Rightarrow> Some (a - b) | _ \<Rightarrow> None)"
  by (simp add: q_sub_def split: option.splits)

lemma qeval_mod: "qeval \<rho> (q_mod x y) =
  (case (qeval \<rho> x, qeval \<rho> y) of
     (Some a, Some b) \<Rightarrow> if b = 0 then None else Some (a mod b) | _ \<Rightarrow> None)"
  by (simp add: q_mod_def split: option.splits)

lemma qeval_long: "qeval \<rho> (q_long x) = qeval \<rho> x"
  by (simp add: q_long_def)

lemma qeval_count: "qeval \<rho> (q_count x) = \<rho> (q_count x)"
  by (simp add: q_count_def)

lemma compute_atom_Atom_idem:
  "\<not> restrips s t \<Longrightarrow> compute_atom (compute_atom (Atom s) t) t = compute_atom (Atom s) t"
  by (auto simp: restrips_def strips_def)

lemma compute_atom_Symbol_idem:
  "\<not> restrips s t \<Longrightarrow>
   compute_atom (compute_atom (Symbol s fs p sp) t) t = compute_atom (Symbol s fs p sp) t"
  by (auto simp: restrips_def strips_def q_Symbol_def)

lemma desubs_compute_atom_Atom:
  "desubs (compute_atom (Atom s) t) t = compute_atom (compute_atom (Atom s) t) t"
  by simp

lemma desubs_compute_atom_Symbol:
  "desubs (compute_atom (Symbol s fs p sp) t) t =
   compute_atom (compute_atom (Symbol s fs p sp) t) t"
  by (simp add: q_Symbol_def)

lemma desubs_sube_compute_atom_Atom:
  "desubs_sube (compute_atom (Atom s) t) t = compute_atom (compute_atom (Atom s) t) t"
  by simp

lemma desubs_sube_compute_atom_Symbol:
  "desubs_sube (compute_atom (Symbol s fs p sp) t) t =
   compute_atom (compute_atom (Symbol s fs p sp) t) t"
  by (simp add: q_Symbol_def)

lemma get_not_single: "length xs \<noteq> 1 \<Longrightarrow> get (List xs) = List xs"
  by (cases xs; cases "tl xs") (auto simp: get_def)

text \<open>On a stable fragment a second pass changes nothing, at either level of the walk; by
  induction along the recursion of \<open>desubs\<close> and \<open>desubs_sube\<close>.\<close>

lemma desubs_twice:
  "desubs_stable t e \<longrightarrow> desubs (desubs e t) t = desubs e t"
  "desubs_sube_stable t e' \<longrightarrow> desubs_sube (desubs_sube e' t) t = desubs_sube e' t"
proof (induction e t and e' t rule: desubs_desubs_sube.induct)
  case (1 s t)
  show ?case using compute_atom_Atom_idem [of s t]
    by (simp del: compute_atom.simps add: desubs_compute_atom_Atom)
next
  case (2 s fs p sp t)
  show ?case using compute_atom_Symbol_idem [of s t fs p sp]
    by (simp del: compute_atom.simps add: desubs_compute_atom_Symbol)
next
  case (9 s t)
  show ?case using compute_atom_Atom_idem [of s t]
    by (simp del: compute_atom.simps add: desubs_sube_compute_atom_Atom)
next
  case (10 s fs p sp t)
  show ?case using compute_atom_Symbol_idem [of s t fs p sp]
    by (simp del: compute_atom.simps add: desubs_sube_compute_atom_Symbol)
qed (simp_all add: get_not_single)

section \<open>Head\<close>



section \<open>Group-by\<close>








section \<open>Idempotence of symbol substitution\<close>

text \<open>
  A second pass is not always the identity. \<^verbatim>\<open>split('.', 1)\<close> removes one leading
  component only, so the Symbol \<open>t.t.name\<close> becomes \<open>t.name\<close>, which still has the prefix \<open>t\<close>,
  and then \<open>name\<close>. And \<^verbatim>\<open>get\<close> unwraps a one-element List on every pass, so a
  fragment without any Symbol can change twice as well.
\<close>

theorem desubs_idempotent_counterexample:
  "desubs (desubs (q_Symbol ''t.t.name'') ''t'') ''t'' \<noteq> desubs (q_Symbol ''t.t.name'') ''t'' \<and>
   desubs (q_Symbol ''t.t.name'') ''t'' = q_Symbol ''t.name'' \<and>
   desubs (desubs (List [List [List [Str ''a'', Str ''b'']]]) ''t'') ''t''
     \<noteq> desubs (List [List [List [Str ''a'', Str ''b'']]]) ''t''"
  by (simp add: q_Symbol_def split1_def get_def)

text \<open>
  C3 (amended). For every scope \<open>t\<close> and every fragment that is stable under \<open>t\<close> (no Atom or
  Symbol name begins with the scope twice, as in \<open>t.t.name\<close>, and no List or Dict that
  \<^verbatim>\<open>get\<close> receives during the walk has exactly one item), substituting twice equals
  substituting once.
\<close>

theorem desubs_idempotent_stable:
  "desubs_stable t e \<Longrightarrow> desubs (desubs e t) t = desubs e t"
  using desubs_twice(1) [of t e] by simp

text \<open>The fragment \<open>(first; `t.name)\<close> of the docstring of \<^verbatim>\<open>desubs\<close>.\<close>

theorem desubs_idempotent_stable_witness:
  "desubs_stable ''t'' (List [Atom ''first'', q_Symbol ''t.name'']) \<and>
   desubs (List [Atom ''first'', q_Symbol ''t.name'']) ''t'' =
     List [Atom ''first'', q_Symbol ''name''] \<and>
   desubs (desubs (List [Atom ''first'', q_Symbol ''t.name'']) ''t'') ''t'' =
     desubs (List [Atom ''first'', q_Symbol ''t.name'']) ''t''"
proof -
  have st: "desubs_stable ''t'' (List [Atom ''first'', q_Symbol ''t.name''])"
    by (simp add: q_Symbol_def restrips_def strips_def split1_def)
  have v: "desubs (List [Atom ''first'', q_Symbol ''t.name'']) ''t'' =
      List [Atom ''first'', q_Symbol ''name'']"
    by (simp add: q_Symbol_def split1_def get_def)
  show ?thesis
    using st v desubs_idempotent_stable [OF st] by blast
qed

section \<open>Join\<close>

text \<open>
  C5. A join whose kind is not \<open>inner\<close>, or whose left and right column names differ, raises
  (\<^verbatim>\<open>NotImplementedError\<close>, the code's unsupported-operation error) and gives no
  translation at all; an inner join on the same column names gives the List headed by \<open>ej\<close>
  with the shared key column list and then the two translated operands, left before right.
\<close>

theorem compute_up_Join_inner_equi:
  "compute_up_Join how on_left on_right lhs rhs =
     (if how = ''inner'' \<and> on_left = on_right
      then Inr (List [Str ''ej'', symlist on_left, lhs, rhs])
      else Inl (NotImplementedError
                 (if how \<noteq> ''inner'' then ''only inner joins supported''
                  else ''can only join on same named columns'')))"
  by (simp add: compute_up_Join_def)

section \<open>Minute\<close>

text \<open>
  C6. Whatever the datum is, the Minute rule reads its minute field, casts it to a long and
  takes it modulo 60; whenever the field evaluates to \<open>m\<close> the translated expression evaluates
  to \<open>m mod 60\<close>.
\<close>

theorem compute_up_Minute_mod_60:
  assumes "getitem data attr = Inr field"
  shows "compute_up_Minute getitem attr data = Inr (q_mod (q_long field) (Num 60)) \<and>
         (\<forall>\<rho> m. qeval \<rho> field = Some m \<longrightarrow>
            qeval \<rho> (q_mod (q_long field) (Num 60)) = Some (m mod 60))"
  using assms by (simp add: compute_up_Minute_def qeval_mod qeval_long)

text \<open>A raw minute value of 65 gives 5.\<close>

theorem compute_up_Minute_mod_60_witness:
  "compute_up_Minute (\<lambda>d a. Inr (List [d, Str a])) ''minute'' (q_Symbol ''t.when'') =
     Inr (q_mod (q_long (List [q_Symbol ''t.when'', Str ''minute''])) (Num 60)) \<and>
   qeval (\<lambda>e. if e = List [q_Symbol ''t.when'', Str ''minute''] then Some 65 else None)
     (q_mod (q_long (List [q_Symbol ''t.when'', Str ''minute''])) (Num 60)) = Some 5"
proof -
  have f: "qeval (\<lambda>e. if e = List [q_Symbol ''t.when'', Str ''minute''] then Some 65 else None)
             (List [q_Symbol ''t.when'', Str ''minute'']) = Some 65"
    by (simp add: q_Symbol_def)
  show ?thesis
    using compute_up_Minute_mod_60 [of "\<lambda>d a. Inr (List [d, Str a])" "q_Symbol ''t.when''"
        "''minute''" "List [q_Symbol ''t.when'', Str ''minute'']", OF refl] f
    by auto
qed

section \<open>Reductions and counts along an axis\<close>

text \<open>
  C7. A reduction and an element count whose axis is not \<open>(0,)\<close> both raise
  (\<^verbatim>\<open>ValueError\<close>) and give no translation; on the axis \<open>(0,)\<close> the reduction is the
  entry of the unary-operator table applied to the data (a symbol the table lacks is a
  \<^verbatim>\<open>KeyError\<close>), and the count is the count primitive.
\<close>

theorem axis_other_than_leading_rejected:
  "compute_up_Reduction unops symbol axis data =
     (if axis = [0] then
        (case unops symbol of None \<Rightarrow> Inl (KeyError symbol) | Some f \<Rightarrow> Inr (f data))
      else Inl (ValueError ''Axis keyword arugment on reductions not supported'')) \<and>
   (\<exists>x. compute_down_nelements axis data =
     (if axis = [0] then Inr (q_count x)
      else Inl (ValueError ''axis == 1 not supported on record types'')))"
proof -
  obtain x where "nrows data = Inr (q_count x)"
    using nrows_count by blast
  then have "compute_down_nelements axis data =
     (if axis = [0] then Inr (q_count x)
      else Inl (ValueError ''axis == 1 not supported on record types''))"
    by (auto simp: nrows_def compute_down_nelements_def)
  then show ?thesis
    by (auto simp: compute_up_Reduction_def)
qed

section \<open>Slices\<close>

text \<open>
  C8. A slice expression with any number of dimensions other than one raises
  (\<^verbatim>\<open>AssertionError\<close>) and gives no translation; with exactly one dimension the row
  count is computed and that one index or range is translated by \<^verbatim>\<open>compute_slice\<close>.
\<close>

theorem compute_up_Slice_single_dimension:
  "\<exists>rowcount. nrows data = Inr rowcount \<and>
     compute_up_Slice idx data isrecord =
       (if length idx = 1 then Inr (compute_slice (hd idx) data rowcount isrecord)
        else Inl (AssertionError ''only single slice allowed''))"
proof -
  obtain x where "nrows data = Inr (q_count x)"
    using nrows_count by blast
  then show ?thesis
    by (simp add: compute_up_Slice_def)
qed

text \<open>
  Every range is translated to \<open>@\<close> applied to the child and \<open>start + til (stop - start)\<close>.
  The start expression evaluates to the normalised start of the spec. The stop expression
  evaluates to the normalised stop of the spec unless the explicit stop is 0, where it
  evaluates to the row count.
\<close>

lemma compute_slice_range_shape:
  "\<exists>start stop. compute_slice (slice istart istop istep) child nr isrecord =
       List [Str ''@'', child, q_add start (q_til (q_sub stop start))] \<and>
     (\<forall>\<rho> r. qeval \<rho> nr = Some r \<longrightarrow>
        qeval \<rho> start = Some (slice_start istart r) \<and>
        qeval \<rho> stop = Some (if istop = Some 0 then r else slice_stop istop r))"
proof -
  let ?start = "case istart of None \<Rightarrow> Num 0
                | Some a \<Rightarrow> if a < 0 then q_add (Num a) nr else Num a"
  let ?stop = "case istop of None \<Rightarrow> nr
               | Some b \<Rightarrow> if b = 0 then nr else if b < 0 then q_add (Num b) nr else Num b"
  have 1: "compute_slice (slice istart istop istep) child nr isrecord =
       List [Str ''@'', child, q_add ?start (q_til (q_sub ?stop ?start))]"
    by (cases istart; cases istop) (auto simp: Let_def)
  have 2: "\<forall>\<rho> r. qeval \<rho> nr = Some r \<longrightarrow> qeval \<rho> ?start = Some (slice_start istart r)"
    by (cases istart) (auto simp: slice_start_def qeval_add)
  have 3: "\<forall>\<rho> r. qeval \<rho> nr = Some r \<longrightarrow>
      qeval \<rho> ?stop = Some (if istop = Some 0 then r else slice_stop istop r)"
    by (cases istop) (auto simp: slice_stop_def qeval_add)
  from 1 2 3 show ?thesis by blast
qed

text \<open>So for every range whose explicit stop is not 0 the start and the length are those of
  the spec.\<close>

lemma compute_slice_range:
  assumes "istop \<noteq> Some 0"
  shows "\<exists>start stop. compute_slice (slice istart istop istep) child nr isrecord =
       List [Str ''@'', child, q_add start (q_til (q_sub stop start))] \<and>
     (\<forall>\<rho> r. qeval \<rho> nr = Some r \<longrightarrow>
        qeval \<rho> start = Some (slice_start istart r) \<and>
        qeval \<rho> (q_sub stop start) = Some (slice_stop istop r - slice_start istart r))"
proof -
  obtain start stop where
    s: "compute_slice (slice istart istop istep) child nr isrecord =
       List [Str ''@'', child, q_add start (q_til (q_sub stop start))]" and
    v: "\<forall>\<rho> r. qeval \<rho> nr = Some r \<longrightarrow>
        qeval \<rho> start = Some (slice_start istart r) \<and>
        qeval \<rho> stop = Some (if istop = Some 0 then r else slice_stop istop r)"
    using compute_slice_range_shape by blast
  have "\<forall>\<rho> r. qeval \<rho> nr = Some r \<longrightarrow>
        qeval \<rho> start = Some (slice_start istart r) \<and>
        qeval \<rho> (q_sub stop start) = Some (slice_stop istop r - slice_start istart r)"
    using v assms by (simp add: qeval_sub)
  with s show ?thesis by blast
qed

text \<open>
  C4. The claim asks, for every range \<open>[a:b]\<close>, for the region that starts at the normalised
  start with the length normalised stop minus normalised start. At the range \<open>[2:0]\<close> over a
  table of 5 rows that length is \<open>0 - 2\<close>; the translation instead has the length
  \<open>count - 2\<close>, which evaluates to 3, since \<^verbatim>\<open>index.stop or nrows\<close> replaces the
  explicit stop 0 by the row count.
\<close>

theorem compute_slice_explicit_stop_zero:
  "compute_slice (slice (Some 2) (Some 0) None) (q_Symbol ''t'') (q_count (q_Symbol ''t'')) False =
     List [Str ''@'', q_Symbol ''t'',
           q_add (Num 2) (q_til (q_sub (q_count (q_Symbol ''t'')) (Num 2)))] \<and>
   qeval (\<lambda>e. if e = q_count (q_Symbol ''t'') then Some 5 else None)
     (q_sub (q_count (q_Symbol ''t'')) (Num 2)) = Some 3 \<and>
   slice_stop (Some 0) 5 - slice_start (Some 2) 5 = - 2"
  by (simp add: Let_def qeval_sub qeval_count slice_stop_def slice_start_def)

text \<open>
  C10. A range whose explicit stop is 0 is translated exactly as the range with no stop, and a
  range whose explicit start is 0 exactly as the range with no start; the translation of
  \<open>[a:0]\<close> extracts from the normalised start to the end of the table, its length being the row
  count minus that start.
\<close>

theorem compute_slice_stop_zero_defaults:
  "compute_slice (slice istart (Some 0) istep) child nr isrecord =
     compute_slice (slice istart None istep) child nr isrecord \<and>
   compute_slice (slice (Some 0) istop istep) child nr isrecord =
     compute_slice (slice None istop istep) child nr isrecord \<and>
   (\<exists>start. compute_slice (slice istart (Some 0) istep) child nr isrecord =
       List [Str ''@'', child, q_add start (q_til (q_sub nr start))] \<and>
     (\<forall>\<rho> r. qeval \<rho> nr = Some r \<longrightarrow>
        qeval \<rho> start = Some (slice_start istart r) \<and>
        qeval \<rho> (q_sub nr start) = Some (r - slice_start istart r)))"
proof -
  let ?start = "case istart of None \<Rightarrow> Num 0
                | Some a \<Rightarrow> if a < 0 then q_add (Num a) nr else Num a"
  have 1: "compute_slice (slice istart (Some 0) istep) child nr isrecord =
       List [Str ''@'', child, q_add ?start (q_til (q_sub nr ?start))]"
    by (cases istart) (auto simp: Let_def)
  have 2: "\<forall>\<rho> r. qeval \<rho> nr = Some r \<longrightarrow>
        qeval \<rho> ?start = Some (slice_start istart r) \<and>
        qeval \<rho> (q_sub nr ?start) = Some (r - slice_start istart r)"
    by (cases istart) (auto simp: slice_start_def qeval_add qeval_sub)
  have 3: "compute_slice (slice istart (Some 0) istep) child nr isrecord =
     compute_slice (slice istart None istep) child nr isrecord"
    by simp
  have 4: "compute_slice (slice (Some 0) istop istep) child nr isrecord =
     compute_slice (slice None istop istep) child nr isrecord"
    by simp
  from 1 2 3 4 show ?thesis by blast
qed

text \<open>The range \<open>[-3:0]\<close> over 5 rows: the start is 2 and the length is 3.\<close>

theorem compute_slice_stop_zero_defaults_witness:
  "compute_slice (slice (Some (- 3)) (Some 0) None) (q_Symbol ''t'') (q_count (q_Symbol ''t''))
       True =
     List [Str ''@'', q_Symbol ''t'',
           q_add (q_add (Num (- 3)) (q_count (q_Symbol ''t'')))
             (q_til (q_sub (q_count (q_Symbol ''t''))
                       (q_add (Num (- 3)) (q_count (q_Symbol ''t'')))))] \<and>
   qeval (\<lambda>e. if e = q_count (q_Symbol ''t'') then Some 5 else None)
     (q_sub (q_count (q_Symbol ''t'')) (q_add (Num (- 3)) (q_count (q_Symbol ''t'')))) = Some 3"
  using compute_slice_stop_zero_defaults [of "Some (- 3)" None "q_Symbol ''t''"
      "q_count (q_Symbol ''t'')" True None]
  by (simp add: Let_def qeval_sub qeval_add qeval_count)

section \<open>Literals\<close>










end
